theory Spec2Isabelle
  imports Main "HOL-Library.AList"
begin

section \<open>Data model of the cluster master (framework/wazuh/core/cluster/master.py)\<close>

text \<open>
  Byte strings and text strings of the source are both modelled as \<open>string\<close>;
  \<open>encode\<close> and \<open>decode\<close> are the identity (payloads are taken to be valid UTF-8).
\<close>

type_synonym bytes = string

text \<open>Exceptions that the master code raises or that reach it as values.\<close>

datatype exn =
    WazuhClusterError nat string
  | KeyError string
  | ValueError string
  | TypeError string
  | IndexError string
  | TimeoutError
  | OtherError string

fun is_wazuh_exception :: "exn \<Rightarrow> bool" where
  "is_wazuh_exception (WazuhClusterError c m) = True"
| "is_wazuh_exception e = False"

text \<open>The three ReceiveTask subclasses of the file; each is bound to one continuation.\<close>

datatype task_class = ReceiveIntegrityTask | ReceiveExtraValidTask | ReceiveAgentInfoTask

text \<open>
  The artifact handle of a task: the received file name (empty until one is bound), or
  an error value stored in its place.
\<close>

datatype artifact = Filename string | ErrorValue exn

record receive_task =
  task_class :: task_class
  task_data :: bytes
  filename :: artifact
  received_information :: bool
  cancelled :: bool

text \<open>
  Status records of a session. A date is a datetime (microseconds) or its text; the
  staging field \<open>tmp_date_start_master\<close> only ever holds a datetime.
\<close>

datatype date = DateTime int | DateStr string

record check_status =
  check_date_start_master :: date
  check_date_end_master :: date

record total_files =
  n_missing :: nat
  n_shared :: nat
  n_extra :: nat
  n_extra_valid :: nat

record sync_status =
  sync_date_start_master :: date
  sync_tmp_date_start_master :: int
  sync_date_end_master :: date
  total_extra_valid :: nat
  total_files :: total_files

record agent_info_status =
  ai_date_start_master :: date
  ai_date_end_master :: date
  n_synced_chunks :: nat

text \<open>MasterHandler: the per-worker session object.\<close>

record master_handler =
  name :: string
  node_type :: string
  version :: string
  ip :: string
  last_keepalive :: int
  sync_agent_info_free :: bool
  sync_integrity_free :: bool
  extra_valid_requested :: bool
  integrity_check_status :: check_status
  integrity_sync_status :: sync_status
  sync_agent_info_status :: agent_info_status
  sync_tasks :: "string \<rightharpoonup> receive_task"
  in_str :: "bytes \<rightharpoonup> bytes"

definition default_date :: date where
  "default_date = DateTime 0"

text \<open>\<open>MasterHandler.__init__\<close>: both slots free, no extra-valid files requested.\<close>

definition init_handler :: "string \<Rightarrow> master_handler" where
  "init_handler n =
     \<lparr> name = n, node_type = [], version = [], ip = [], last_keepalive = 0,
       sync_agent_info_free = True,
       sync_integrity_free = True,
       extra_valid_requested = False,
       integrity_check_status =
         \<lparr> check_date_start_master = default_date, check_date_end_master = default_date \<rparr>,
       integrity_sync_status =
         \<lparr> sync_date_start_master = default_date, sync_tmp_date_start_master = 0,
           sync_date_end_master = default_date, total_extra_valid = 0,
           total_files = \<lparr> n_missing = 0, n_shared = 0, n_extra = 0, n_extra_valid = 0 \<rparr> \<rparr>,
       sync_agent_info_status =
         \<lparr> ai_date_start_master = default_date, ai_date_end_master = default_date,
           n_synced_chunks = 0 \<rparr>,
       sync_tasks = Map.empty,
       in_str = Map.empty \<rparr>"

text \<open>File metadata of the snapshot and of a worker manifest.\<close>

record file_meta =
  md5 :: string
  merged :: bool
  merge_type :: string
  merge_name :: string
  cluster_item_key :: string

type_synonym files_metadata = "(string \<times> file_meta) list"

text \<open>An entry of the pending-request table: the event flag and the response.\<close>

record pending_request =
  event_set :: bool
  response :: string

text \<open>Master: the server object shared by all sessions.\<close>

record master =
  node_name :: string
  master_node_type :: string
  master_version :: string
  master_ip :: string
  integrity_control :: files_metadata
  integrity_already_executed :: "string list"
  pending_api_requests :: "string \<rightharpoonup> pending_request"
  clients :: "(string \<times> master_handler) list"
  local_server_clients :: "string list"
  dapi_queue :: "bytes list"
  sendsync_queue :: "bytes list"

text \<open>What a handler does to the outside: messages sent, tasks spawned, files touched.\<close>

datatype effect =
    Send bytes bytes
  | SendTo string bytes bytes
  | SendFile string
  | CompressFiles string "string list"
  | Unlink string
  | Rmtree string
  | ForwardDapiResponse bytes

section \<open>Permission probes and begin-receive\<close>

definition str_bool :: "bool \<Rightarrow> string" where
  "str_bool b = (if b then ''True'' else ''False'')"

text \<open>\<open>MasterHandler.get_permission\<close>.\<close>

definition get_permission ::
  "master_handler \<Rightarrow> master \<Rightarrow> bytes \<Rightarrow> (bytes \<times> bytes) \<times> master" where
  "get_permission h srv sync_type =
     (if sync_type = ''syn_i_w_m_p'' \<and> name h \<notin> set (integrity_already_executed srv)
      then ((''ok'', str_bool (sync_integrity_free h)),
            srv\<lparr>integrity_already_executed := integrity_already_executed srv @ [name h]\<rparr>)
      else if sync_type = ''syn_a_w_m_p''
      then ((''ok'', str_bool (sync_agent_info_free h)), srv)
      else ((''ok'', str_bool False), srv))"

text \<open>
  Modelled from the spec: \<open>WazuhCommon.setup_receive_file\<close> of the base class, which is
  not in master.py. It "allocates a ReceiveTask bound to the corresponding continuation
  and returns the new task-id"; the identifier of the new task is chosen by the
  environment (\<open>new_id\<close>). Calling it with no task class is a \<open>TypeError\<close>, as calling
  \<open>None\<close> is in the source language.
\<close>

definition setup_receive_file ::
  "master_handler \<Rightarrow> string \<Rightarrow> task_class option \<Rightarrow> bytes
     \<Rightarrow> (exn + bytes \<times> bytes) \<times> master_handler" where
  "setup_receive_file h new_id sync_function data =
     (case sync_function of
        None \<Rightarrow> (Inl (TypeError ''NoneType object is not callable''), h)
      | Some c \<Rightarrow>
          (Inr (''ok'', new_id),
           h\<lparr>sync_tasks := (sync_tasks h)(new_id \<mapsto>
                \<lparr> task_class = c, task_data = data, filename = Filename [],
                  received_information = False, cancelled = False \<rparr>)\<rparr>))"

text \<open>\<open>MasterHandler.setup_sync_integrity\<close>.\<close>

definition setup_sync_integrity ::
  "master_handler \<Rightarrow> string \<Rightarrow> bytes \<Rightarrow> bytes \<Rightarrow> (exn + bytes \<times> bytes) \<times> master_handler" where
  "setup_sync_integrity h new_id sync_type data =
     (if sync_type = ''syn_i_w_m''
      then setup_receive_file (h\<lparr>sync_integrity_free := False\<rparr>) new_id
             (Some ReceiveIntegrityTask) data
      else if sync_type = ''syn_e_w_m''
      then setup_receive_file h new_id (Some ReceiveExtraValidTask) data
      else if sync_type = ''syn_a_w_m''
      then setup_receive_file (h\<lparr>sync_agent_info_free := False\<rparr>) new_id
             (Some ReceiveAgentInfoTask) data
      else setup_receive_file h new_id None data)"

section \<open>Health documents\<close>

text \<open>The dictionaries built by \<open>to_dict\<close> and \<open>get_health\<close>.\<close>

record node_info =
  info_name :: string
  info_type :: string
  info_version :: string
  info_ip :: string
  n_active_agents :: "nat option"

record last_sync =
  ls_date_start_master :: date
  ls_date_end_master :: date
  ls_total_extra_valid :: nat
  ls_total_files :: total_files

record node_status =
  status_sync_integrity_free :: bool
  last_check_integrity :: check_status
  last_sync_integrity :: last_sync
  last_sync_agentinfo :: agent_info_status
  last_keep_alive :: "int + string"

record node_entry =
  info :: node_info
  status :: "node_status option"

record health =
  n_connected_nodes :: nat
  nodes :: "(string \<times> node_entry) list"

section \<open>External collaborators\<close>

text \<open>
  What the handler receives back from a send: the peer's answer, or an exception object
  handed back as a value; a send can also raise.
\<close>

datatype reply = Bytes bytes | ExcValue exn

datatype send_result = Returns reply | Raises exn

datatype wdb_result = WdbReturns "string list" | WdbRaises exn

text \<open>
  The agent-info document after \<open>json.loads\<close>: not JSON at all; JSON without a usable
  \<open>chunks\<close> entry (the exception that reading it raises); or a document with its chunks
  and, when present, its \<open>set_data_command\<close>.
\<close>

datatype agent_info_doc =
    BadJSON string
  | NoChunks exn
  | Doc "string option" "string list"

text \<open>The four buckets produced by the integrity diff.\<close>

record worker_files_ko =
  missing :: files_metadata
  shared :: files_metadata
  extra :: files_metadata
  extra_valid :: files_metadata

text \<open>The filter of a health request after \<open>json.loads\<close>: None, a dict or a list.\<close>

datatype filter_node = FilterNone | FilterDict "string list" | FilterList "string list"

text \<open>
  Everything outside master.py that its code calls: the clock (indexed by the call's
  position inside one operation), the transport, the wazuh-db client (opening the
  connection may fail; the \<open>i\<close>-th query gets its own answer), the cluster helper module
  (decompress, compare, compress, unmerge), the JSON and date libraries, the agent
  database and the cluster configuration. \<open>unmerge_info\<close> is a generator: it yields
  members and may then raise.
\<close>

record env =
  now :: "nat \<Rightarrow> int"
  strftime :: "int \<Rightarrow> string"
  send_request :: "bytes \<Rightarrow> bytes \<Rightarrow> send_result"
  send_request_to :: "string \<Rightarrow> bytes \<Rightarrow> bytes \<Rightarrow> send_result"
  send_file :: "string \<Rightarrow> exn option"
  decompress_files :: "string \<Rightarrow> exn + (files_metadata \<times> string)"
  compare_files :: "files_metadata \<Rightarrow> files_metadata \<Rightarrow> string \<Rightarrow> worker_files_ko \<times> total_files"
  compress_files :: "string \<Rightarrow> string list \<Rightarrow> worker_files_ko \<Rightarrow> exn + string"
  relpath :: "string \<Rightarrow> string"
  dumps_exn :: "exn \<Rightarrow> bytes"
  str_exn :: "exn \<Rightarrow> string"
  loads_agent_info :: "bytes \<Rightarrow> agent_info_doc"
  wdb_connect :: "exn option"
  wdb_send :: "nat \<Rightarrow> string \<Rightarrow> wdb_result"
  dumps_result :: "nat \<Rightarrow> (string list + string) list \<Rightarrow> bytes"
  wazuh_path :: string
  agents_overview :: "exn + string list"
  unmerge_info :: "string \<Rightarrow> string \<Rightarrow> string \<Rightarrow> (string \<times> bytes \<times> string) list \<times> exn option"
  strptime :: "string \<Rightarrow> string \<Rightarrow> int option"
  file_permissions :: "string \<Rightarrow> nat option"
  write_time :: int
  active_agents :: "string \<Rightarrow> nat"
  keepalive_text :: "int \<Rightarrow> string"
  loads_filter :: "bytes \<Rightarrow> exn + filter_node"
  dumps_health :: "health \<Rightarrow> bytes"
  get_connected_nodes :: "bytes \<Rightarrow> exn + bytes"
  base_process_request ::
    "master_handler \<Rightarrow> master \<Rightarrow> bytes \<Rightarrow> bytes
       \<Rightarrow> (exn + bytes \<times> bytes) \<times> master_handler \<times> master"

section \<open>End of a receive, worker-reported errors, task completion, connection loss\<close>

text \<open>\<open>data.split(b' ', 1)\<close> unpacked into two names: fails when there is no space.\<close>

definition split1 :: "string \<Rightarrow> (string \<times> string) option" where
  "split1 s =
     (if CHR '' '' \<in> set s
      then Some (takeWhile (\<lambda>c. c \<noteq> CHR '' '') s, tl (dropWhile (\<lambda>c. c \<noteq> CHR '' '') s))
      else None)"

text \<open>
  Modelled from the spec: \<open>WazuhCommon.end_receiving_file\<close> of the base class (not in
  master.py). It "binds the received filename to the task and signals its completion
  event"; the data is \<open>task-id filename\<close>.
\<close>

definition end_receiving_file ::
  "master_handler \<Rightarrow> string \<Rightarrow> (exn + bytes \<times> bytes) \<times> master_handler" where
  "end_receiving_file h task_and_file_names =
     (case split1 task_and_file_names of
        None \<Rightarrow> (Inl (ValueError ''not enough values to unpack''), h)
      | Some (task_id, file) \<Rightarrow>
          (case sync_tasks h task_id of
             None \<Rightarrow> (Inl (WazuhClusterError 3027 task_id), h)
           | Some t \<Rightarrow>
               (Inr (''ok'', ''File correctly received''),
                h\<lparr>sync_tasks := (sync_tasks h)(task_id \<mapsto>
                     t\<lparr>filename := Filename file, received_information := True\<rparr>)\<rparr>)))"

text \<open>\<open>MasterHandler.end_receiving_integrity_checksums\<close>.\<close>

definition end_receiving_integrity_checksums ::
  "master_handler \<Rightarrow> string \<Rightarrow> (exn + bytes \<times> bytes) \<times> master_handler" where
  "end_receiving_integrity_checksums h task_and_file_names =
     end_receiving_file h task_and_file_names"

text \<open>
  Modelled from the spec: \<open>WazuhCommon.error_receiving_file\<close> of the base class (not in
  master.py). It "forwards the error to the task's continuation, which will surface
  it": the error value takes the place of the file name in the task named by the data
  (\<open>task-id error\<close>) and the task's completion event is signalled.
\<close>

definition error_receiving_file ::
  "master_handler \<Rightarrow> string \<Rightarrow> (exn + bytes \<times> bytes) \<times> master_handler" where
  "error_receiving_file h taskname_and_error_details =
     (case split1 taskname_and_error_details of
        None \<Rightarrow> (Inl (ValueError ''not enough values to unpack''), h)
      | Some (taskname, error_details) \<Rightarrow>
          (case sync_tasks h taskname of
             None \<Rightarrow> (Inr (''ok'', ''Error received''), h)
           | Some t \<Rightarrow>
               (Inr (''ok'', ''Error received''),
                h\<lparr>sync_tasks := (sync_tasks h)(taskname \<mapsto>
                     t\<lparr>filename := ErrorValue (OtherError error_details),
                       received_information := True\<rparr>)\<rparr>)))"

text \<open>\<open>MasterHandler.process_sync_error_from_worker\<close>.\<close>

definition process_sync_error_from_worker ::
  "master_handler \<Rightarrow> bytes \<Rightarrow> (exn + bytes \<times> bytes) \<times> master_handler" where
  "process_sync_error_from_worker h error_msg =
     error_receiving_file (h\<lparr>sync_integrity_free := True\<rparr>) error_msg"

text \<open>
  Modelled from the spec: \<open>done_callback\<close> of the base task class (not in master.py). A
  ReceiveTask is "destroyed when the continuation returns or the connection is lost":
  the finished task leaves the session's task map.
\<close>

definition base_done_callback :: "master_handler \<Rightarrow> string \<Rightarrow> master_handler" where
  "base_done_callback h task_id = h\<lparr>sync_tasks := (sync_tasks h)(task_id := None)\<rparr>"

text \<open>\<open>ReceiveIntegrityTask.done_callback\<close>.\<close>

definition integrity_done_callback :: "master_handler \<Rightarrow> string \<Rightarrow> master_handler" where
  "integrity_done_callback h task_id =
     (let h1 = base_done_callback h task_id
      in if \<not> extra_valid_requested h1 then h1\<lparr>sync_integrity_free := True\<rparr> else h1)"

text \<open>\<open>ReceiveExtraValidTask.done_callback\<close>.\<close>

definition extra_valid_done_callback :: "master_handler \<Rightarrow> string \<Rightarrow> master_handler" where
  "extra_valid_done_callback h task_id =
     (base_done_callback h task_id)
       \<lparr>extra_valid_requested := False, sync_integrity_free := True\<rparr>"

text \<open>\<open>ReceiveAgentInfoTask.done_callback\<close>.\<close>

definition agent_info_done_callback :: "master_handler \<Rightarrow> string \<Rightarrow> master_handler" where
  "agent_info_done_callback h task_id =
     (base_done_callback h task_id)\<lparr>sync_agent_info_free := True\<rparr>"

text \<open>
  Modelled from the spec: \<open>connection_lost\<close> of the base handler class (not in
  master.py). A worker registration is "removed on connection loss": the session's
  name leaves the server's registry.
\<close>

definition base_connection_lost :: "master_handler \<Rightarrow> master \<Rightarrow> master" where
  "base_connection_lost h srv = srv\<lparr>clients := AList.delete (name h) (clients srv)\<rparr>"

text \<open>
  \<open>MasterHandler.connection_lost\<close>: after the base class's part, every task of the
  session's task map is asked to cancel.
\<close>

definition connection_lost :: "master_handler \<Rightarrow> master \<Rightarrow> master_handler \<times> master" where
  "connection_lost h srv =
     (h\<lparr>sync_tasks := map_option (\<lambda>t. t\<lparr>cancelled := True\<rparr>) \<circ> sync_tasks h\<rparr>,
      base_connection_lost h srv)"

section \<open>The DAPI correlator: responses\<close>

text \<open>\<open>MasterHandler.process_dapi_res\<close>.\<close>

definition process_dapi_res ::
  "master_handler \<Rightarrow> master \<Rightarrow> bytes
     \<Rightarrow> (exn + bytes \<times> bytes) \<times> master_handler \<times> master \<times> effect list" where
  "process_dapi_res h srv data =
     (case split1 data of
        None \<Rightarrow> (Inl (ValueError ''not enough values to unpack''), h, srv, [])
      | Some (req_id, string_id) \<Rightarrow>
          (case pending_api_requests srv req_id of
             Some p \<Rightarrow>
               (case in_str h string_id of
                  None \<Rightarrow> (Inl (KeyError string_id), h, srv, [])
                | Some payload \<Rightarrow>
                    (Inr (''ok'', ''Forwarded response''),
                     h\<lparr>in_str := (in_str h)(string_id := None)\<rparr>,
                     srv\<lparr>pending_api_requests := (pending_api_requests srv)(req_id \<mapsto>
                           p\<lparr>response := payload, event_set := True\<rparr>)\<rparr>,
                     []))
           | None \<Rightarrow>
               if req_id \<in> set (local_server_clients srv)
               then (Inr (''ok'', ''Response forwarded to worker''), h, srv,
                     [ForwardDapiResponse data])
               else (Inl (WazuhClusterError 3032 req_id), h, srv, [])))"

section \<open>Health view\<close>

text \<open>\<open>MasterHandler.to_dict\<close>: the keys starting with \<open>tmp\<close> are left out.\<close>

definition handler_to_dict :: "master_handler \<Rightarrow> node_entry" where
  "handler_to_dict h =
     \<lparr> info = \<lparr> info_name = name h, info_type = node_type h, info_version = version h,
                info_ip = ip h, n_active_agents = None \<rparr>,
       status = Some
         \<lparr> status_sync_integrity_free = sync_integrity_free h,
           last_check_integrity = integrity_check_status h,
           last_sync_integrity =
             \<lparr> ls_date_start_master = sync_date_start_master (integrity_sync_status h),
               ls_date_end_master = sync_date_end_master (integrity_sync_status h),
               ls_total_extra_valid = total_extra_valid (integrity_sync_status h),
               ls_total_files = total_files (integrity_sync_status h) \<rparr>,
           last_sync_agentinfo = sync_agent_info_status h,
           last_keep_alive = Inl (last_keepalive h) \<rparr> \<rparr>"

text \<open>\<open>Master.to_dict\<close>: the master's entry has no status.\<close>

definition master_to_dict :: "master \<Rightarrow> node_entry" where
  "master_to_dict srv =
     \<lparr> info = \<lparr> info_name = node_name srv, info_type = master_node_type srv,
                info_version = master_version srv, info_ip = master_ip srv,
                n_active_agents = None \<rparr>,
       status = None \<rparr>"

fun filter_names :: "filter_node \<Rightarrow> string list" where
  "filter_names FilterNone = []"
| "filter_names (FilterDict ks) = ks"
| "filter_names (FilterList ks) = ks"

text \<open>
  The loop body of \<open>get_health\<close> for one entry: the number of active agents is filled
  in, and for an entry whose type is not \<open>master\<close> the last keep-alive is turned into
  text (a \<open>KeyError\<close> when the entry has no status).
\<close>

definition finish_entry :: "env \<Rightarrow> string \<times> node_entry \<Rightarrow> (string \<times> node_entry) option" where
  "finish_entry env ne =
     (let e1 = (snd ne)\<lparr>info := (info (snd ne))\<lparr>n_active_agents := Some (active_agents env (fst ne))\<rparr>\<rparr>
      in if info_type (info e1) \<noteq> ''master''
         then (case status e1 of
                 None \<Rightarrow> None
               | Some st \<Rightarrow>
                   (case last_keep_alive st of
                      Inl ts \<Rightarrow>
                        Some (fst ne, e1\<lparr>status := Some (st\<lparr>last_keep_alive := Inr (keepalive_text env ts)\<rparr>)\<rparr>)
                    | Inr txt \<Rightarrow> None))
         else Some (fst ne, e1))"

fun those_entries :: "'a option list \<Rightarrow> 'a list option" where
  "those_entries [] = Some []"
| "those_entries (None # xs) = None"
| "those_entries (Some x # xs) = (case those_entries xs of None \<Rightarrow> None | Some ys \<Rightarrow> Some (x # ys))"

text \<open>\<open>Master.get_health\<close>.\<close>

definition get_health :: "env \<Rightarrow> master \<Rightarrow> filter_node \<Rightarrow> exn + health" where
  "get_health env srv filter_node =
     (let workers_info =
            map (\<lambda>kv. (fst kv, handler_to_dict (snd kv)))
              (filter (\<lambda>kv. filter_node = FilterNone \<or> filter_node = FilterDict []
                            \<or> fst kv \<in> set (filter_names filter_node))
                 (clients srv));
          n = length workers_info;
          workers_info' =
            (if filter_node = FilterNone \<or> node_name srv \<in> set (filter_names filter_node)
             then AList.update (node_name srv) (master_to_dict srv) workers_info
             else workers_info)
      in case those_entries (map (finish_entry env) workers_info') of
           None \<Rightarrow> Inl (KeyError ''status'')
         | Some es \<Rightarrow> Inr \<lparr> n_connected_nodes = n, nodes = es \<rparr>)"

section \<open>Command dispatch\<close>

text \<open>
  \<open>MasterHandler.process_request\<close>. \<open>new_id\<close> is the identifier a begin-receive
  command gives to its task. The result is the answer or the exception raised, the
  session, the server and what was handed to the event loop.
\<close>

definition process_request ::
  "env \<Rightarrow> master_handler \<Rightarrow> master \<Rightarrow> string \<Rightarrow> bytes \<Rightarrow> bytes
     \<Rightarrow> (exn + bytes \<times> bytes) \<times> master_handler \<times> master \<times> effect list" where
  "process_request env h srv new_id command data =
     (if command = ''syn_i_w_m_p'' \<or> command = ''syn_a_w_m_p''
      then (Inr (fst (get_permission h srv command)), h, snd (get_permission h srv command), [])
      else if command = ''syn_i_w_m'' \<or> command = ''syn_e_w_m'' \<or> command = ''syn_a_w_m''
      then (fst (setup_sync_integrity h new_id command data),
            snd (setup_sync_integrity h new_id command data), srv, [])
      else if command = ''syn_i_w_m_e'' \<or> command = ''syn_e_w_m_e''
      then (fst (end_receiving_integrity_checksums h data),
            snd (end_receiving_integrity_checksums h data), srv, [])
      else if command = ''syn_i_w_m_r''
      then (fst (process_sync_error_from_worker h data),
            snd (process_sync_error_from_worker h data), srv, [])
      else if command = ''dapi''
      then (Inr (''ok'', ''Added request to API requests queue''), h,
            srv\<lparr>dapi_queue := dapi_queue srv @ [name h @ ''*'' @ data]\<rparr>, [])
      else if command = ''dapi_res''
      then process_dapi_res h srv data
      else if command = ''dapi_err''
      then (case split1 data of
              None \<Rightarrow> (Inl (ValueError ''not enough values to unpack''), h, srv, [])
            | Some (dapi_client, error_msg) \<Rightarrow>
                if dapi_client \<in> set (local_server_clients srv)
                then (Inr (''ok'', ''DAPI error forwarded to worker''), h, srv,
                      [SendTo dapi_client command error_msg])
                else (Inl (KeyError dapi_client), h, srv, []))
      else if command = ''get_nodes''
      then (case get_connected_nodes env data of
              Inl e \<Rightarrow> (Inl e, h, srv, [])
            | Inr res \<Rightarrow> (Inr (''ok'', res), h, srv, []))
      else if command = ''get_health''
      then (case loads_filter env data of
              Inl e \<Rightarrow> (Inl e, h, srv, [])
            | Inr f \<Rightarrow>
                (case get_health env srv f of
                   Inl e \<Rightarrow> (Inl e, h, srv, [])
                 | Inr doc \<Rightarrow> (Inr (''ok'', dumps_health env doc), h, srv, [])))
      else if command = ''sendsync''
      then (Inr (''ok'', ''Added request to SendSync requests queue''), h,
            srv\<lparr>sendsync_queue := sendsync_queue srv @ [name h @ ''*'' @ data]\<rparr>, [])
      else (fst (base_process_request env h srv command data),
            fst (snd (base_process_request env h srv command data)),
            snd (snd (base_process_request env h srv command data)), []))"

section \<open>The DAPI correlator: requests\<close>

text \<open>
  While \<open>execute\<close> waits for its event, sessions process the \<open>dapi_res\<close> commands that
  arrive. A delivery is the command's data together with the session that receives it:
  \<open>None\<close> for the session running \<open>execute\<close>, or another session of the server.
\<close>

definition deliver ::
  "master_handler \<times> master \<Rightarrow> master_handler option \<times> bytes \<Rightarrow> master_handler \<times> master" where
  "deliver hs d =
     (case fst d of
        None \<Rightarrow>
          (fst (snd (process_dapi_res (fst hs) (snd hs) (snd d))),
           fst (snd (snd (process_dapi_res (fst hs) (snd hs) (snd d)))))
      | Some other \<Rightarrow>
          (fst hs, fst (snd (snd (process_dapi_res other (snd hs) (snd d))))))"

text \<open>
  The wait of \<open>execute\<close> and what follows it: the response when the event has been set;
  otherwise error 3021 at the timeout, or no return at all (\<open>None\<close>) when the caller
  waits without a timeout.
\<close>

definition await_response ::
  "master \<Rightarrow> string \<Rightarrow> bool \<Rightarrow> (exn + string) option" where
  "await_response srv request_id wait_for_complete =
     (case pending_api_requests srv request_id of
        None \<Rightarrow> Some (Inl (KeyError request_id))
      | Some p \<Rightarrow>
          if event_set p then Some (Inr (response p))
          else if wait_for_complete then None
          else Some (Inl (WazuhClusterError 3021 [])))"

text \<open>
  \<open>MasterHandler.execute\<close>. \<open>request_id\<close> is the fresh identifier, \<open>deliveries\<close> the
  \<open>dapi_res\<close> commands processed before the wait ends. Nothing in the function takes
  the entry out of the table again.
\<close>

definition execute ::
  "env \<Rightarrow> master_handler \<Rightarrow> master \<Rightarrow> string \<Rightarrow> string \<Rightarrow> bytes \<Rightarrow> bytes \<Rightarrow> bool
     \<Rightarrow> (master_handler option \<times> bytes) list
     \<Rightarrow> (exn + string) option \<times> master_handler \<times> master \<times> effect list" where
  "execute env h srv request_id new_id command data wait_for_complete deliveries =
     (let srv1 = srv\<lparr>pending_api_requests := (pending_api_requests srv)(request_id \<mapsto>
                      \<lparr> event_set = False, response = [] \<rparr>)\<rparr>
      in if command = ''dapi_fwd''
         then (case split1 data of
                 None \<Rightarrow> (Some (Inl (ValueError ''not enough values to unpack'')), h, srv1, [])
               | Some (client, request) \<Rightarrow>
                   if client \<in> fst ` set (clients srv1)
                   then (case send_request_to env client ''dapi'' (request_id @ '' '' @ request) of
                           Raises e \<Rightarrow>
                             (Some (Inl e), h, srv1,
                              [SendTo client ''dapi'' (request_id @ '' '' @ request)])
                         | Returns (ExcValue e) \<Rightarrow>
                             (Some (Inl (OtherError ''AttributeError'')), h, srv1,
                              [SendTo client ''dapi'' (request_id @ '' '' @ request)])
                         | Returns (Bytes b) \<Rightarrow>
                             (await_response (snd (foldl deliver (h, srv1) deliveries))
                                request_id wait_for_complete,
                              fst (foldl deliver (h, srv1) deliveries),
                              snd (foldl deliver (h, srv1) deliveries),
                              [SendTo client ''dapi'' (request_id @ '' '' @ request)]))
                   else (Some (Inl (WazuhClusterError 3022 client)), h, srv1, []))
         else if command = ''dapi''
         then (case send_request env ''dapi'' (request_id @ '' '' @ data) of
                 Raises e \<Rightarrow>
                   (Some (Inl e), h, srv1, [Send ''dapi'' (request_id @ '' '' @ data)])
               | Returns (ExcValue e) \<Rightarrow>
                   (Some (Inl (OtherError ''AttributeError'')), h, srv1,
                    [Send ''dapi'' (request_id @ '' '' @ data)])
               | Returns (Bytes b) \<Rightarrow>
                   (await_response (snd (foldl deliver (h, srv1) deliveries))
                      request_id wait_for_complete,
                    fst (foldl deliver (h, srv1) deliveries),
                    snd (foldl deliver (h, srv1) deliveries),
                    [Send ''dapi'' (request_id @ '' '' @ data)]))
         else (case process_request env h srv1 new_id command data of
                 (Inl e, h', srv', effs) \<Rightarrow> (Some (Inl e), h', srv', effs)
               | (Inr (st, request_result), h', srv', effs) \<Rightarrow>
                   if st \<noteq> ''ok''
                   then (Some (Inl (WazuhClusterError 3022 request_result)), h', srv', effs)
                   else (Some (Inr request_result), h', srv', effs)))"

section \<open>Agent-info synchronisation\<close>

text \<open>
  One chunk of the loop in \<open>sync_wazuh_db_info\<close>, the \<open>i\<close>-th (from 0), on the result
  \<open>(updated_chunks, error_messages)\<close>. An error message is a response (\<open>Inl\<close>) or the
  text of an exception (\<open>Inr\<close>). Reading \<open>set_data_command\<close> happens inside the
  \<open>try\<close>, so a document without it gives one \<open>KeyError\<close> message per chunk; so does
  an empty response (\<open>IndexError\<close>).
\<close>

definition update_chunk ::
  "env \<Rightarrow> string option \<Rightarrow> nat \<Rightarrow> string
     \<Rightarrow> nat \<times> (string list + string) list \<Rightarrow> nat \<times> (string list + string) list" where
  "update_chunk env cmd i chunk res =
     (case cmd of
        None \<Rightarrow> (fst res, snd res @ [Inr (str_exn env (KeyError ''set_data_command''))])
      | Some c \<Rightarrow>
          (case wdb_send env i (c @ '' '' @ chunk) of
             WdbRaises e \<Rightarrow> (fst res, snd res @ [Inr (str_exn env e)])
           | WdbReturns [] \<Rightarrow>
               (fst res, snd res @ [Inr (str_exn env (IndexError ''list index out of range''))])
           | WdbReturns (r # rs) \<Rightarrow>
               if r \<noteq> ''ok'' then (fst res, snd res @ [Inl (r # rs)])
               else (Suc (fst res), snd res)))"

text \<open>The loop \<open>for i, chunk in enumerate(data['chunks'])\<close>.\<close>

fun update_chunks ::
  "env \<Rightarrow> string option \<Rightarrow> nat \<Rightarrow> string list
     \<Rightarrow> nat \<times> (string list + string) list \<Rightarrow> nat \<times> (string list + string) list" where
  "update_chunks env cmd i [] res = res"
| "update_chunks env cmd i (chunk # cs) res =
     update_chunks env cmd (Suc i) cs (update_chunk env cmd i chunk res)"

text \<open>
  \<open>MasterHandler.sync_wazuh_db_info\<close>: the worker's answer or the exception raised, the
  session and the messages sent. The connection to the database is opened first.
\<close>

definition sync_wazuh_db_info ::
  "env \<Rightarrow> master_handler \<Rightarrow> bytes \<Rightarrow> (exn + reply) \<times> master_handler \<times> effect list" where
  "sync_wazuh_db_info env h task_id =
     (case wdb_connect env of
        Some e \<Rightarrow> (Inl e, h, [])
      | None \<Rightarrow>
     (case in_str h task_id of
        None \<Rightarrow>
          (let msg = ''error while trying to access string under task_id ''
                       @ str_exn env (KeyError task_id) @ ''.''
           in case send_request env ''syn_m_a_err'' msg of
                Raises e \<Rightarrow> (Inl e, h, [Send ''syn_m_a_err'' msg])
              | Returns r \<Rightarrow>
                  (Inl (WazuhClusterError 3035
                          (''it should be under task_id '' @ str_exn env (KeyError task_id)
                             @ '', but it is empty.'')),
                   h, [Send ''syn_m_a_err'' msg]))
      | Some received_string \<Rightarrow>
          (case loads_agent_info env received_string of
             BadJSON m \<Rightarrow>
               (case send_request env ''syn_m_a_err'' (''error while trying to load JSON: '' @ m) of
                  Raises e \<Rightarrow>
                    (Inl e, h, [Send ''syn_m_a_err'' (''error while trying to load JSON: '' @ m)])
                | Returns r \<Rightarrow>
                    (Inl (WazuhClusterError 3036 m), h,
                     [Send ''syn_m_a_err'' (''error while trying to load JSON: '' @ m)]))
           | NoChunks e \<Rightarrow> (Inl e, h, [])
           | Doc cmd chunks \<Rightarrow>
               (let result = update_chunks env cmd 0 chunks (0, []);
                    out = dumps_result env (fst result) (snd result)
                in case send_request env ''syn_m_a_e'' out of
                     Raises e \<Rightarrow> (Inl e, h, [Send ''syn_m_a_e'' out])
                   | Returns r \<Rightarrow>
                       (Inr r,
                        h\<lparr>sync_agent_info_status :=
                            \<lparr> ai_date_start_master = DateStr (strftime env (now env 0)),
                              ai_date_end_master = DateStr (strftime env (now env 1)),
                              n_synced_chunks = fst result \<rparr>\<rparr>,
                        [Send ''syn_m_a_e'' out])))))"

section \<open>Integrity synchronisation\<close>

definition starts_with_Error :: "bytes \<Rightarrow> bool" where
  "starts_with_Error b = (take 5 b = ''Error'')"

definition str_of_bytes :: "bytes \<Rightarrow> string" where
  "str_of_bytes b = ''b'' @ [CHR 0x27] @ b @ [CHR 0x27]"

text \<open>
  The two \<open>except\<close> clauses of the push in \<open>sync_integrity\<close>: the error goes to the
  worker as \<open>syn_m_c_r\<close>, a non-Wazuh exception wrapped into error 1000. \<open>task_id\<close> is
  \<open>None\<close> when the name still holds the coroutine's own text argument (the send of
  \<open>syn_m_c\<close> raised before assigning it): joining it with bytes is a \<open>TypeError\<close>.
\<close>

definition notify_push_error ::
  "env \<Rightarrow> bytes option \<Rightarrow> exn \<Rightarrow> (exn + reply) \<times> effect list" where
  "notify_push_error env task_id e =
     (case task_id of
        None \<Rightarrow> (Inl (TypeError ''can only concatenate str (not bytes) to str''), [])
      | Some t \<Rightarrow>
          (let data = t @ '' '' @
                 (if is_wazuh_exception e then dumps_exn env e
                  else dumps_exn env (WazuhClusterError 1000 (str_exn env e)))
           in case send_request env ''syn_m_c_r'' data of
                Raises e' \<Rightarrow> (Inl e', [Send ''syn_m_c_r'' data])
              | Returns r \<Rightarrow> (Inr r, [Send ''syn_m_c_r'' data])))"

definition after_effects :: "effect list \<Rightarrow> 'a \<times> effect list \<Rightarrow> 'a \<times> effect list" where
  "after_effects effs r = (fst r, effs @ snd r)"

text \<open>The \<open>try\<close> block of the push with its \<open>except\<close> clauses.\<close>

definition push_files :: "env \<Rightarrow> string \<Rightarrow> (exn + reply) \<times> effect list" where
  "push_files env compressed_data =
     after_effects [Send ''syn_m_c'' []]
       (case send_request env ''syn_m_c'' [] of
          Raises e \<Rightarrow> notify_push_error env None e
        | Returns (ExcValue e) \<Rightarrow> notify_push_error env (Some ''None'') e
        | Returns (Bytes t) \<Rightarrow>
            if starts_with_Error t
            then notify_push_error env (Some ''None'') (WazuhClusterError 3016 (str_of_bytes t))
            else after_effects [SendFile compressed_data]
              (case send_file env compressed_data of
                 Some e \<Rightarrow> notify_push_error env (Some t) e
               | None \<Rightarrow>
                   after_effects [Send ''syn_m_c_e'' (t @ '' '' @ relpath env compressed_data)]
                     (case send_request env ''syn_m_c_e''
                             (t @ '' '' @ relpath env compressed_data) of
                        Raises e \<Rightarrow> notify_push_error env (Some t) e
                      | Returns (ExcValue e) \<Rightarrow> notify_push_error env (Some t) e
                      | Returns (Bytes r) \<Rightarrow>
                          if starts_with_Error r
                          then notify_push_error env (Some t) (WazuhClusterError 3016 r)
                          else (Inr (Bytes r), []))))"

text \<open>
  The \<open>finally\<close> block of the push, after the archive is unlinked: the round is
  stamped as finished only when no extra-valid files were requested.
\<close>

definition finish_push :: "env \<Rightarrow> master_handler \<Rightarrow> master_handler" where
  "finish_push env h =
     (if \<not> extra_valid_requested h
      then h\<lparr>integrity_sync_status := (integrity_sync_status h)
               \<lparr>sync_date_start_master :=
                  DateStr (strftime env (sync_tmp_date_start_master (integrity_sync_status h))),
                sync_date_end_master := DateStr (strftime env (now env 4))\<rparr>\<rparr>
      else h)"

text \<open>
  \<open>MasterHandler.sync_integrity\<close>. \<open>received_file\<close> tells whether the task's event was
  set before \<open>timeout_receiving_file\<close> ran out. The result is the worker's answer or the
  exception raised, the session and the effects in order.
\<close>

definition sync_integrity ::
  "env \<Rightarrow> master_handler \<Rightarrow> master \<Rightarrow> string \<Rightarrow> bool
     \<Rightarrow> (exn + reply) \<times> master_handler \<times> effect list" where
  "sync_integrity env h srv task_id received_file =
     (if \<not> received_file then (Inl TimeoutError, h, [])
      else case sync_tasks h task_id of
        None \<Rightarrow> (Inl (KeyError task_id), h, [])
      | Some t \<Rightarrow>
          (case filename t of
             ErrorValue e \<Rightarrow> (Inl e, h, [])
           | Filename received_filename \<Rightarrow>
               (case decompress_files env received_filename of
                  Inl e \<Rightarrow> (Inl e, h, [])
                | Inr (files_metadata, decompressed_files_path) \<Rightarrow>
                    (let worker_files_ko =
                           fst (compare_files env (integrity_control srv) files_metadata (name h));
                         counts =
                           snd (compare_files env (integrity_control srv) files_metadata (name h));
                         h1 = h\<lparr>extra_valid_requested := (extra_valid worker_files_ko \<noteq> []),
                                integrity_check_status :=
                                  \<lparr> check_date_start_master = DateStr (strftime env (now env 0)),
                                    check_date_end_master = DateStr (strftime env (now env 2)) \<rparr>\<rparr>
                     in if length (missing worker_files_ko) + length (shared worker_files_ko)
                             + length (extra worker_files_ko)
                             + length (extra_valid worker_files_ko) = 0
                        then (case send_request env ''syn_m_c_ok'' [] of
                                Raises e \<Rightarrow>
                                  (Inl e, h1, [Rmtree decompressed_files_path, Send ''syn_m_c_ok'' []])
                              | Returns r \<Rightarrow>
                                  (Inr r, h1, [Rmtree decompressed_files_path, Send ''syn_m_c_ok'' []]))
                        else
                          (let h2 = h1\<lparr>integrity_sync_status := (integrity_sync_status h1)
                                        \<lparr>sync_tmp_date_start_master := now env 3,
                                         total_files := counts,
                                         total_extra_valid := 0\<rparr>\<rparr>;
                               master_files_paths =
                                 remdups (map fst (shared worker_files_ko)
                                            @ map fst (missing worker_files_ko))
                           in case compress_files env (name h) master_files_paths worker_files_ko of
                                Inl e \<Rightarrow>
                                  (Inl e, h2,
                                   [Rmtree decompressed_files_path,
                                    CompressFiles (name h) master_files_paths])
                              | Inr compressed_data \<Rightarrow>
                                  (fst (push_files env compressed_data),
                                   finish_push env h2,
                                   [Rmtree decompressed_files_path,
                                    CompressFiles (name h) master_files_paths]
                                   @ snd (push_files env compressed_data)
                                   @ [Unlink compressed_data]))))))"

section \<open>Applying the files of a worker\<close>

text \<open>
  The disk: regular files by path, each with its content, its modification time in whole
  seconds (\<open>int(os.stat(path).st_mtime)\<close>) and its mode when one was set. Writes to the
  disk are taken to succeed.
\<close>

record disk_file =
  content :: bytes
  file_mtime :: int
  file_mode :: "nat option"

record apply_state =
  session :: master_handler
  disk :: "string \<rightharpoonup> disk_file"
  errors :: "string \<rightharpoonup> nat"
  warnings :: "string \<rightharpoonup> nat"

definition basename :: "string \<Rightarrow> string" where
  "basename p = rev (takeWhile (\<lambda>c. c \<noteq> CHR ''/'') (rev p))"

definition path_join :: "string \<Rightarrow> string \<Rightarrow> string" where
  "path_join a b =
     (if b \<noteq> [] \<and> hd b = CHR ''/'' then b
      else if a = [] \<or> last a = CHR ''/'' then a @ b
      else a @ ''/'' @ b)"

text \<open>\<open>1 if d.get(k) is None else d[k] + 1\<close> and \<open>1 if not d.get(k) else d[k] + 1\<close>.\<close>

definition bump :: "(string \<rightharpoonup> nat) \<Rightarrow> string \<Rightarrow> (string \<rightharpoonup> nat)" where
  "bump m k = m(k \<mapsto> (case m k of None \<Rightarrow> 1 | Some c \<Rightarrow> c + 1))"

definition bump_falsy :: "(string \<rightharpoonup> nat) \<Rightarrow> string \<Rightarrow> (string \<rightharpoonup> nat)" where
  "bump_falsy m k = m(k \<mapsto> (case m k of None \<Rightarrow> 1 | Some c \<Rightarrow> if c = 0 then 1 else c + 1))"

text \<open>The member's time: with microseconds, or else without.\<close>

definition parse_mtime :: "env \<Rightarrow> string \<Rightarrow> int option" where
  "parse_mtime env file_time =
     (case strptime env ''%Y-%m-%d %H:%M:%S.%f'' file_time of
        Some t \<Rightarrow> Some t
      | None \<Rightarrow> strptime env ''%Y-%m-%d %H:%M:%S'' file_time)"

text \<open>
  Datetimes are microseconds since the epoch, UTC. \<open>datetime.utcfromtimestamp\<close> raises
  for seconds outside the years 1 to 9999 (\<open>None\<close>).
\<close>

definition utcfromtimestamp :: "int \<Rightarrow> int option" where
  "utcfromtimestamp secs =
     (if - 62135596800 \<le> secs \<and> secs \<le> 253402300799 then Some (secs * 1000000) else None)"

definition timegm :: "int \<Rightarrow> int" where
  "timegm t = t div 1000000"

text \<open>
  Modelled from the spec: \<open>utils.safe_move\<close>, which is not in master.py. It "atomically
  moves with metadata": the file leaves the source path and arrives at the destination
  with the given permissions and, when a time is given, with that modification time.
  Moving a file that does not exist fails (\<open>None\<close>).
\<close>

definition safe_move ::
  "(string \<rightharpoonup> disk_file) \<Rightarrow> string \<Rightarrow> string \<Rightarrow> nat \<Rightarrow> int option
     \<Rightarrow> (string \<rightharpoonup> disk_file) option" where
  "safe_move d source target perm time =
     (case d source of
        None \<Rightarrow> None
      | Some f \<Rightarrow>
          Some ((d(source := None))(target \<mapsto>
                  f\<lparr>file_mtime := (case time of None \<Rightarrow> file_mtime f | Some t \<Rightarrow> t),
                    file_mode := Some perm\<rparr>)))"

text \<open>
  The end of the loop body in \<open>update_file\<close>: the member is written to the temporary
  path and moved to the destination with the member's time, and counted. The
  permissions are those configured for the cluster item key; a key without
  configuration is a \<open>KeyError\<close> raised after the temporary file was written, and the
  member is counted as an error, as it is when the move fails.
\<close>

definition write_member ::
  "env \<Rightarrow> file_meta \<Rightarrow> apply_state \<Rightarrow> string \<Rightarrow> string \<Rightarrow> bytes \<Rightarrow> int \<Rightarrow> apply_state" where
  "write_member env data st tmp_unmerged_path full_unmerged_name file_data mtime =
     (let written = (disk st)(tmp_unmerged_path \<mapsto>
            \<lparr> content = file_data, file_mtime = write_time env, file_mode = None \<rparr>)
      in case file_permissions env (cluster_item_key data) of
           None \<Rightarrow> st\<lparr>disk := written, errors := bump (errors st) (cluster_item_key data)\<rparr>
         | Some perm \<Rightarrow>
             (case safe_move written tmp_unmerged_path full_unmerged_name perm
                     (Some (timegm mtime)) of
                None \<Rightarrow>
                  st\<lparr>disk := written, errors := bump (errors st) (cluster_item_key data)\<rparr>
              | Some moved \<Rightarrow>
                  st\<lparr>disk := moved,
                     session := (session st)
                       \<lparr>integrity_sync_status := (integrity_sync_status (session st))
                          \<lparr>total_extra_valid :=
                             total_extra_valid (integrity_sync_status (session st)) + 1\<rparr>\<rparr>\<rparr>))"

text \<open>
  The body of the loop over the members of a merged file in \<open>update_file\<close>. The member
  is skipped when its agent is unknown (a warning) and when the destination exists with
  a modification time strictly later than the member's; a time that does not parse and
  a modification time of the destination that is no datetime are exceptions, counted as
  errors; otherwise the member is written.
\<close>

definition update_member ::
  "env \<Rightarrow> string list \<Rightarrow> file_meta \<Rightarrow> apply_state \<Rightarrow> string \<times> bytes \<times> string \<Rightarrow> apply_state" where
  "update_member env agent_ids data st member =
     (let file_path = fst member;
          file_data = fst (snd member);
          file_time = snd (snd member);
          full_unmerged_name = path_join (wazuh_path env) file_path;
          tmp_unmerged_path =
            path_join (path_join (path_join (path_join (wazuh_path env) ''queue'') ''cluster'')
                         (name (session st))) (basename file_path);
          agent_id = basename file_path
      in if agent_id \<notin> set agent_ids
         then st\<lparr>warnings := bump (warnings st) (cluster_item_key data)\<rparr>
         else (case parse_mtime env file_time of
                 None \<Rightarrow> st\<lparr>errors := bump (errors st) (cluster_item_key data)\<rparr>
               | Some mtime \<Rightarrow>
                   (case disk st full_unmerged_name of
                      None \<Rightarrow>
                        write_member env data st tmp_unmerged_path full_unmerged_name
                          file_data mtime
                    | Some f \<Rightarrow>
                        (case utcfromtimestamp (file_mtime f) of
                           None \<Rightarrow> st\<lparr>errors := bump (errors st) (cluster_item_key data)\<rparr>
                         | Some local_mtime \<Rightarrow>
                             if local_mtime > mtime then st
                             else write_member env data st tmp_unmerged_path
                                    full_unmerged_name file_data mtime))))"

text \<open>\<open>update_file\<close>, the function inside \<open>process_files_from_worker\<close>.\<close>

definition update_file ::
  "env \<Rightarrow> string list \<Rightarrow> string \<Rightarrow> apply_state \<Rightarrow> string \<times> file_meta \<Rightarrow> apply_state" where
  "update_file env agent_ids decompressed_files_path st entry =
     (let fname = fst entry; data = snd entry
      in if basename fname = ''client.keys''
         then st\<lparr>warnings := bump_falsy (warnings st) (cluster_item_key data)\<rparr>
         else if merged data
         then (let members =
                     fst (unmerge_info env (merge_type data) decompressed_files_path (merge_name data));
                   st' = foldl (update_member env agent_ids data) st members
               in case snd (unmerge_info env (merge_type data) decompressed_files_path
                              (merge_name data)) of
                    None \<Rightarrow> st'
                  | Some e \<Rightarrow>
                      if is_wazuh_exception e
                      then st'\<lparr>warnings := bump_falsy (warnings st') (cluster_item_key data)\<rparr>
                      else st'\<lparr>errors := bump_falsy (errors st') (cluster_item_key data)\<rparr>)
         else (case file_permissions env (cluster_item_key data) of
                 None \<Rightarrow> st\<lparr>errors := bump_falsy (errors st) (cluster_item_key data)\<rparr>
               | Some perm \<Rightarrow>
                   (case safe_move (disk st) (path_join decompressed_files_path fname)
                           (path_join (wazuh_path env) fname) perm None of
                      None \<Rightarrow> st\<lparr>errors := bump_falsy (errors st) (cluster_item_key data)\<rparr>
                    | Some moved \<Rightarrow> st\<lparr>disk := moved\<rparr>)))"

text \<open>
  \<open>MasterHandler.process_files_from_worker\<close>: the agent identifiers are read once (none
  when reading them fails), then every entry of the manifest is applied.
\<close>

definition process_files_from_worker ::
  "env \<Rightarrow> master_handler \<Rightarrow> (string \<rightharpoonup> disk_file) \<Rightarrow> files_metadata \<Rightarrow> string \<Rightarrow> apply_state" where
  "process_files_from_worker env h d files_metadata decompressed_files_path =
     foldl (update_file env (case agents_overview env of Inl e \<Rightarrow> [] | Inr ids \<Rightarrow> ids)
              decompressed_files_path)
       \<lparr> session = h, disk = d, errors = Map.empty, warnings = Map.empty \<rparr>
       files_metadata"

text \<open>\<open>MasterHandler.sync_worker_files\<close>.\<close>

definition sync_worker_files ::
  "env \<Rightarrow> master_handler \<Rightarrow> (string \<rightharpoonup> disk_file) \<Rightarrow> string \<Rightarrow> bool
     \<Rightarrow> exn option \<times> master_handler \<times> (string \<rightharpoonup> disk_file) \<times> effect list" where
  "sync_worker_files env h d task_id received_file =
     (if \<not> received_file then (Some TimeoutError, h, d, [])
      else case sync_tasks h task_id of
        None \<Rightarrow> (Some (KeyError task_id), h, d, [])
      | Some t \<Rightarrow>
          (case filename t of
             ErrorValue e \<Rightarrow> (Some e, h, d, [])
           | Filename received_filename \<Rightarrow>
               (case decompress_files env received_filename of
                  Inl e \<Rightarrow> (Some e, h, d, [])
                | Inr (files_metadata, decompressed_files_path) \<Rightarrow>
                    (None,
                     session (process_files_from_worker env h d files_metadata
                                decompressed_files_path),
                     disk (process_files_from_worker env h d files_metadata
                             decompressed_files_path),
                     [Rmtree decompressed_files_path]))))"

text \<open>\<open>MasterHandler.sync_extra_valid\<close>.\<close>

definition sync_extra_valid ::
  "env \<Rightarrow> master_handler \<Rightarrow> (string \<rightharpoonup> disk_file) \<Rightarrow> string \<Rightarrow> bool
     \<Rightarrow> exn option \<times> master_handler \<times> (string \<rightharpoonup> disk_file) \<times> effect list" where
  "sync_extra_valid env h d task_id received_file =
     (case sync_worker_files env h d task_id received_file of
        (Some e, h', d', effs) \<Rightarrow> (Some e, h', d', effs)
      | (None, h', d', effs) \<Rightarrow>
          (None,
           h'\<lparr>integrity_sync_status := (integrity_sync_status h')
                \<lparr>sync_date_start_master :=
                   DateStr (strftime env (sync_tmp_date_start_master (integrity_sync_status h'))),
                 sync_date_end_master := DateStr (strftime env (now env 0))\<rparr>,
              extra_valid_requested := False,
              sync_integrity_free := True\<rparr>,
           d', effs))"

section \<open>Sessions as state machines\<close>

text \<open>
  What can happen to a session, one event at a time: the commands of the worker that
  touch the synchronisation state, the three continuations run by the event loop, the
  done-callbacks of the three task classes, and the loss of the connection.
\<close>

datatype event =
    Probe bytes
  | BeginReceive string bytes bytes
  | EndReceive string
  | SyncError bytes
  | DapiRes bytes
  | RunIntegrity env string bool
  | RunExtraValid env string bool
  | RunAgentInfo env bytes
  | IntegrityDone string
  | ExtraValidDone string
  | AgentInfoDone string
  | ConnectionLost

fun step ::
  "master_handler \<times> master \<times> (string \<rightharpoonup> disk_file) \<Rightarrow> event
     \<Rightarrow> master_handler \<times> master \<times> (string \<rightharpoonup> disk_file)" where
  "step (h, srv, d) (Probe c) = (h, snd (get_permission h srv c), d)"
| "step (h, srv, d) (BeginReceive i c x) = (snd (setup_sync_integrity h i c x), srv, d)"
| "step (h, srv, d) (EndReceive x) = (snd (end_receiving_integrity_checksums h x), srv, d)"
| "step (h, srv, d) (SyncError m) = (snd (process_sync_error_from_worker h m), srv, d)"
| "step (h, srv, d) (DapiRes x) =
     (fst (snd (process_dapi_res h srv x)), fst (snd (snd (process_dapi_res h srv x))), d)"
| "step (h, srv, d) (RunIntegrity env t r) = (fst (snd (sync_integrity env h srv t r)), srv, d)"
| "step (h, srv, d) (RunExtraValid env t r) =
     (fst (snd (sync_extra_valid env h d t r)), srv, fst (snd (snd (sync_extra_valid env h d t r))))"
| "step (h, srv, d) (RunAgentInfo env t) = (fst (snd (sync_wazuh_db_info env h t)), srv, d)"
| "step (h, srv, d) (IntegrityDone t) = (integrity_done_callback h t, srv, d)"
| "step (h, srv, d) (ExtraValidDone t) = (extra_valid_done_callback h t, srv, d)"
| "step (h, srv, d) (AgentInfoDone t) = (agent_info_done_callback h t, srv, d)"
| "step (h, srv, d) ConnectionLost = (fst (connection_lost h srv), snd (connection_lost h srv), d)"

definition run ::
  "master_handler \<times> master \<times> (string \<rightharpoonup> disk_file) \<Rightarrow> event list
     \<Rightarrow> master_handler \<times> master \<times> (string \<rightharpoonup> disk_file)" where
  "run s es = foldl step s es"

text \<open>The slot invariant of the specification.\<close>

definition slot_invariant :: "master_handler \<Rightarrow> bool" where
  "slot_invariant h = (extra_valid_requested h \<longrightarrow> \<not> sync_integrity_free h)"

text \<open>
  The diff that the integrity continuation computes, when it gets that far: it does not
  when the wait times out, when the task is gone, when the artifact is an error value
  (the continuation raises it) or when the archive cannot be decompressed.
\<close>

definition computed_diff ::
  "env \<Rightarrow> master_handler \<Rightarrow> master \<Rightarrow> string \<Rightarrow> bool \<Rightarrow> worker_files_ko option" where
  "computed_diff env h srv task_id received_file =
     (if \<not> received_file then None
      else case sync_tasks h task_id of
        None \<Rightarrow> None
      | Some t \<Rightarrow>
          (case filename t of
             ErrorValue e \<Rightarrow> None
           | Filename f \<Rightarrow>
               (case decompress_files env f of
                  Inl e \<Rightarrow> None
                | Inr (files_metadata, dir) \<Rightarrow>
                    Some (fst (compare_files env (integrity_control srv) files_metadata (name h))))))"

definition requests_extra_valid ::
  "env \<Rightarrow> master_handler \<Rightarrow> master \<Rightarrow> string \<Rightarrow> bool \<Rightarrow> bool" where
  "requests_extra_valid env h srv task_id received_file =
     (case computed_diff env h srv task_id received_file of
        None \<Rightarrow> False
      | Some ko \<Rightarrow> extra_valid ko \<noteq> [])"

text \<open>
  Traces on which the invariant is kept: a worker-reported synchronisation error is
  processed only while no extra-valid files are requested, and no integrity
  continuation that runs while the integrity slot is free finds extra-valid files to
  request. (A continuation may run while the slot is free, as after a reported error,
  which it then raises.)
\<close>

fun allowed :: "master_handler \<times> master \<times> (string \<rightharpoonup> disk_file) \<Rightarrow> event \<Rightarrow> bool" where
  "allowed (h, srv, d) (SyncError m) = (\<not> extra_valid_requested h)"
| "allowed (h, srv, d) (RunIntegrity env t r) =
     (\<not> (sync_integrity_free h \<and> requests_extra_valid env h srv t r))"
| "allowed s e = True"

fun admissible ::
  "master_handler \<times> master \<times> (string \<rightharpoonup> disk_file) \<Rightarrow> event list \<Rightarrow> bool" where
  "admissible s [] = True"
| "admissible s (e # es) = (allowed s e \<and> admissible (step s e) es)"

section \<open>The outcome of the chunks, as the specification words it\<close>



section \<open>A concrete environment, server and manifest entry\<close>

definition example_master :: master where
  "example_master =
     \<lparr> node_name = ''master-node'', master_node_type = ''master'', master_version = ''4.2.0'',
       master_ip = ''10.0.0.1'', integrity_control = [], integrity_already_executed = [],
       pending_api_requests = [''req-0'' \<mapsto> \<lparr> event_set = False, response = [] \<rparr>],
       clients = [(''w1'', init_handler ''w1'')],
       local_server_clients = [''api-1''], dapi_queue = [], sendsync_queue = [] \<rparr>"

text \<open>
  A session of worker \<open>w1\<close> that has received the file of task \<open>t1\<close> and holds three
  received strings: a DAPI response, an agent-info payload of three chunks and one of
  none.
\<close>

definition example_session :: master_handler where
  "example_session =
     (init_handler ''w1'')
       \<lparr>sync_tasks := [''t1'' \<mapsto>
           \<lparr> task_class = ReceiveIntegrityTask, task_data = [], filename = Filename ''f1'',
             received_information = True, cancelled = False \<rparr>],
        in_str := [''s1'' \<mapsto> ''response text'', ''a1'' \<mapsto> ''three'', ''a0'' \<mapsto> ''none'']\<rparr>"

definition example_meta :: file_meta where
  "example_meta =
     \<lparr> md5 = ''C'', merged = True, merge_type = ''agent-groups'', merge_name = ''c.merged'',
       cluster_item_key = ''queue/agent-groups/'' \<rparr>"

text \<open>
  The peer answers \<open>ok\<close> to everything; the database answers \<open>err\<close> to the chunk
  \<open>bad\<close> and \<open>ok\<close> otherwise; the diff finds nothing; the only time text the parser
  is asked about is \<open>1970-01-01 00:01:40\<close>, one hundred seconds after the epoch.
\<close>

definition example_env :: env where
  "example_env =
     \<lparr> now = (\<lambda>k. 1000000 * int k),
       strftime = (\<lambda>t. ''date''),
       send_request = (\<lambda>c x. Returns (Bytes ''ok'')),
       send_request_to = (\<lambda>w c x. Returns (Bytes ''ok'')),
       send_file = (\<lambda>f. None),
       decompress_files = (\<lambda>f. Inr ([], ''/var/ossec/queue/cluster/w1/zipdir'')),
       compare_files = (\<lambda>m w n.
          (\<lparr> missing = [], shared = [], extra = [], extra_valid = [] \<rparr>,
           \<lparr> n_missing = 0, n_shared = 0, n_extra = 0, n_extra_valid = 0 \<rparr>)),
       compress_files = (\<lambda>n ps ko. Inr ''/var/ossec/queue/cluster/w1/out.zip''),
       relpath = (\<lambda>f. ''queue/cluster/w1/out.zip''),
       dumps_exn = (\<lambda>e. ''{}''),
       str_exn = (\<lambda>e. ''error''),
       loads_agent_info = (\<lambda>b.
          if b = ''three''
          then Doc (Some ''agent 001 sync-agent-info set'') [''good1'', ''bad'', ''good3'']
          else if b = ''none'' then Doc (Some ''agent 001 sync-agent-info set'') []
          else BadJSON ''Expecting value''),
       wdb_connect = None,
       wdb_send = (\<lambda>i q.
          if q = ''agent 001 sync-agent-info set bad'' then WdbReturns [''err'', ''reason'']
          else WdbReturns [''ok'', ''done'']),
       dumps_result = (\<lambda>n errs. replicate n (CHR ''u'') @ concat (map (case_sum concat id) errs)),
       wazuh_path = ''/var/ossec'',
       agents_overview = Inr [''001''],
       unmerge_info = (\<lambda>ty dir nm. ([], None)),
       strptime = (\<lambda>fmt x.
          if fmt = ''%Y-%m-%d %H:%M:%S'' \<and> x = ''1970-01-01 00:01:40'' then Some 100000000
          else None),
       file_permissions = (\<lambda>k. Some 432),
       write_time = 200,
       active_agents = (\<lambda>n. 0),
       keepalive_text = (\<lambda>t. ''date''),
       loads_filter = (\<lambda>b. Inr FilterNone),
       dumps_health = (\<lambda>doc. ''{}''),
       get_connected_nodes = (\<lambda>b. Inr ''{}''),
       base_process_request = (\<lambda>h srv c x. (Inl (WazuhClusterError 1001 c), h, srv)) \<rparr>"

text \<open>The same environment with a diff that asks for one extra-valid file.\<close>

definition example_env_extra_valid :: env where
  "example_env_extra_valid =
     example_env\<lparr>compare_files := (\<lambda>m w n.
       (\<lparr> missing = [], shared = [], extra = [],
          extra_valid = [(''queue/agent-groups/c.merged'', example_meta)] \<rparr>,
        \<lparr> n_missing = 0, n_shared = 0, n_extra = 0, n_extra_valid = 1 \<rparr>))\<rparr>"

text \<open>
  An integrity round of a fresh session up to the answer of the diff: begin, end of the
  file, the continuation.
\<close>

definition example_round :: "event list" where
  "example_round =
     [BeginReceive ''t1'' ''syn_i_w_m'' [], EndReceive ''t1 f1'',
      RunIntegrity example_env_extra_valid ''t1'' True]"

text \<open>
  An integrity round that the worker gives up: it begins, the worker reports an error,
  the continuation wakes up and raises it, the task completes.
\<close>

definition example_error_path :: "event list" where
  "example_error_path =
     [BeginReceive ''t1'' ''syn_i_w_m'' [], SyncError ''t1 failed'',
      RunIntegrity example_env_extra_valid ''t1'' True, IntegrityDone ''t1'']"

text \<open>
  Two integrity rounds that overlap: the second begins before the first is over, the
  first finds nothing to synchronise and completes, the second asks for an extra-valid
  file.
\<close>

definition example_overlap :: "event list" where
  "example_overlap =
     [BeginReceive ''t1'' ''syn_i_w_m'' [], BeginReceive ''t2'' ''syn_i_w_m'' [],
      EndReceive ''t1 f1'', EndReceive ''t2 f2'',
      RunIntegrity example_env ''t1'' True, IntegrityDone ''t1'',
      RunIntegrity example_env_extra_valid ''t2'' True]"




section \<open>Auxiliary facts\<close>

lemma foldl_keeps: "(\<And>s x. g (f s x) = g s) \<Longrightarrow> g (foldl f s xs) = g s"
  by (induction xs arbitrary: s) simp_all

lemma foldl_invariant: "(\<And>s x. P s \<Longrightarrow> P (f s x)) \<Longrightarrow> P s \<Longrightarrow> P (foldl f s xs)"
  by (induction xs arbitrary: s) simp_all




section \<open>Permission probes\<close>

lemma sync_extra_valid_name:
  "name (fst (snd (sync_extra_valid env h d t r))) = name h"
proof -
  have m: "\<And>st mem m ids. name (session (update_member env ids m st mem)) = name (session st)"
    by (simp add: update_member_def write_member_def safe_move_def Let_def split: option.splits)
  have f: "\<And>st e ids p. name (session (update_file env ids p st e)) = name (session st)"
    by (simp add: update_file_def Let_def m
          foldl_keeps [where g = "\<lambda>st. name (session st)"] split: option.splits)
  have p: "\<And>fm p. name (session (process_files_from_worker env h d fm p)) = name h"
    by (simp add: process_files_from_worker_def f foldl_keeps [where g = "\<lambda>st. name (session st)"])
  have w: "name (fst (snd (sync_worker_files env h d t r))) = name h"
    by (simp add: sync_worker_files_def p
          split: option.splits artifact.splits sum.splits prod.splits)
  show ?thesis
    using w by (auto simp add: sync_extra_valid_def split: prod.splits option.splits)
qed

lemma step_keeps_name: "name (fst (step s e)) = name (fst s)"
proof (cases s)
  case (fields h srv d)
  show ?thesis
  proof (cases e)
    case (RunIntegrity env t r)
    with fields show ?thesis
      by (simp add: sync_integrity_def finish_push_def Let_def
            split: option.splits artifact.splits sum.splits prod.splits send_result.splits)
  next
    case (RunExtraValid env t r)
    with fields show ?thesis by (simp add: sync_extra_valid_name)
  next
    case (RunAgentInfo env t)
    with fields show ?thesis
      by (simp add: sync_wazuh_db_info_def Let_def
            split: option.splits agent_info_doc.splits send_result.splits)
  qed (use fields in \<open>simp_all add: setup_sync_integrity_def setup_receive_file_def
        end_receiving_integrity_checksums_def end_receiving_file_def
        process_sync_error_from_worker_def error_receiving_file_def process_dapi_res_def
        integrity_done_callback_def extra_valid_done_callback_def agent_info_done_callback_def
        base_done_callback_def connection_lost_def Let_def
        split: option.splits prod.splits\<close>)
qed

lemma step_keeps_executed:
  "n \<in> set (integrity_already_executed (fst (snd s)))
   \<Longrightarrow> n \<in> set (integrity_already_executed (fst (snd (step s e))))"
proof (cases s)
  case (fields h srv d)
  assume "n \<in> set (integrity_already_executed (fst (snd s)))"
  with fields show ?thesis
    by (cases e)
       (simp_all add: get_permission_def process_dapi_res_def connection_lost_def
          base_connection_lost_def split: option.splits prod.splits)
qed

lemma run_keeps_probed:
  "name (fst s) \<in> set (integrity_already_executed (fst (snd s)))
   \<Longrightarrow> name (fst (run s es)) \<in> set (integrity_already_executed (fst (snd (run s es))))"
  unfolding run_def
proof (induction es arbitrary: s)
  case Nil
  then show ?case by simp
next
  case (Cons e es)
  have "name (fst (step s e)) \<in> set (integrity_already_executed (fst (snd (step s e))))"
    using Cons.prems by (simp add: step_keeps_name step_keeps_executed)
  then show ?case using Cons.IH by simp
qed

lemma probe_after_probe:
  "fst (get_permission (fst (run (h, snd (get_permission h srv ''syn_i_w_m_p''), d) es))
          (fst (snd (run (h, snd (get_permission h srv ''syn_i_w_m_p''), d) es)))
          ''syn_i_w_m_p'') = (''ok'', ''False'')"
proof -
  have "name (fst (h, snd (get_permission h srv ''syn_i_w_m_p''), d))
        \<in> set (integrity_already_executed (fst (snd (h, snd (get_permission h srv ''syn_i_w_m_p''), d))))"
    by (simp add: get_permission_def)
  from run_keeps_probed [OF this, of es] show ?thesis
    by (simp add: get_permission_def str_bool_def)
qed

text \<open>
  C3, get_permission. The first integrity probe of a snapshot cycle (the session's name
  is not yet in integrity-already-executed) appends the name and answers with the value
  of sync_integrity_free as "True" or "False"; an integrity probe of a session whose name
  is already there answers "False" whatever the slot holds, and so does every integrity
  probe of the worker that follows a first one, whatever the session does in between (the
  list is only emptied by the snapshot loop); an agent-info probe always answers with the
  value of sync_agent_info_free and leaves the server untouched. The dispatcher hands
  both probe commands to get_permission.
\<close>

theorem get_permission_probe:
  "(name h \<notin> set (integrity_already_executed srv) \<longrightarrow>
      get_permission h srv ''syn_i_w_m_p'' =
        ((''ok'', if sync_integrity_free h then ''True'' else ''False''),
         srv\<lparr>integrity_already_executed := integrity_already_executed srv @ [name h]\<rparr>))
   \<and> name h \<in> set (integrity_already_executed (snd (get_permission h srv ''syn_i_w_m_p'')))
   \<and> (name h \<in> set (integrity_already_executed srv) \<longrightarrow>
        get_permission h srv ''syn_i_w_m_p'' = ((''ok'', ''False''), srv))
   \<and> (name h' = name h \<longrightarrow>
        fst (get_permission h' (snd (get_permission h srv ''syn_i_w_m_p'')) ''syn_i_w_m_p'')
          = (''ok'', ''False''))
   \<and> fst (get_permission (fst (run (h, snd (get_permission h srv ''syn_i_w_m_p''), d) es))
          (fst (snd (run (h, snd (get_permission h srv ''syn_i_w_m_p''), d) es)))
          ''syn_i_w_m_p'') = (''ok'', ''False'')
   \<and> get_permission h srv ''syn_a_w_m_p'' =
        ((''ok'', if sync_agent_info_free h then ''True'' else ''False''), srv)
   \<and> process_request env h srv i ''syn_i_w_m_p'' x =
        (Inr (fst (get_permission h srv ''syn_i_w_m_p'')), h,
         snd (get_permission h srv ''syn_i_w_m_p''), [])
   \<and> process_request env h srv i ''syn_a_w_m_p'' x =
        (Inr (fst (get_permission h srv ''syn_a_w_m_p'')), h,
         snd (get_permission h srv ''syn_a_w_m_p''), [])"
proof -
  have later: "fst (get_permission (fst (run (h, snd (get_permission h srv ''syn_i_w_m_p''), d) es))
          (fst (snd (run (h, snd (get_permission h srv ''syn_i_w_m_p''), d) es)))
          ''syn_i_w_m_p'') = (''ok'', ''False'')"
    by (rule probe_after_probe)
  have rest: "(name h \<notin> set (integrity_already_executed srv) \<longrightarrow>
      get_permission h srv ''syn_i_w_m_p'' =
        ((''ok'', if sync_integrity_free h then ''True'' else ''False''),
         srv\<lparr>integrity_already_executed := integrity_already_executed srv @ [name h]\<rparr>))
   \<and> name h \<in> set (integrity_already_executed (snd (get_permission h srv ''syn_i_w_m_p'')))
   \<and> (name h \<in> set (integrity_already_executed srv) \<longrightarrow>
        get_permission h srv ''syn_i_w_m_p'' = ((''ok'', ''False''), srv))
   \<and> (name h' = name h \<longrightarrow>
        fst (get_permission h' (snd (get_permission h srv ''syn_i_w_m_p'')) ''syn_i_w_m_p'')
          = (''ok'', ''False''))
   \<and> get_permission h srv ''syn_a_w_m_p'' =
        ((''ok'', if sync_agent_info_free h then ''True'' else ''False''), srv)
   \<and> process_request env h srv i ''syn_i_w_m_p'' x =
        (Inr (fst (get_permission h srv ''syn_i_w_m_p'')), h,
         snd (get_permission h srv ''syn_i_w_m_p''), [])
   \<and> process_request env h srv i ''syn_a_w_m_p'' x =
        (Inr (fst (get_permission h srv ''syn_a_w_m_p'')), h,
         snd (get_permission h srv ''syn_a_w_m_p''), [])"
    by (simp add: get_permission_def str_bool_def process_request_def)
  from later rest show ?thesis by blast
qed

theorem get_permission_probe_witness:
  "get_permission (init_handler ''w1'') example_master ''syn_i_w_m_p''
     = ((''ok'', ''True''), example_master\<lparr>integrity_already_executed := [''w1'']\<rparr>)
   \<and> get_permission (init_handler ''w1'')
        (example_master\<lparr>integrity_already_executed := [''w1'']\<rparr>) ''syn_i_w_m_p''
     = ((''ok'', ''False''), example_master\<lparr>integrity_already_executed := [''w1'']\<rparr>)
   \<and> fst (get_permission (init_handler ''w1'')
             (snd (get_permission (init_handler ''w1'') example_master ''syn_i_w_m_p''))
             ''syn_i_w_m_p'')
     = (''ok'', ''False'')"
  using get_permission_probe
      [where h = "init_handler ''w1''" and srv = example_master and h' = "init_handler ''w1''"]
    get_permission_probe
      [where h = "init_handler ''w1''"
         and srv = "example_master\<lparr>integrity_already_executed := [''w1'']\<rparr>"
         and h' = "init_handler ''w1''"]
  by (simp add: init_handler_def example_master_def)

section \<open>Begin-receive and the slots\<close>

text \<open>
  C1, counterexample. In a fresh session, where sync_integrity_free is true, processing
  \<open>syn_e_w_m\<close> allocates the task and leaves sync_integrity_free true: the extra-valid
  command does not set the slot to false.
\<close>

theorem setup_sync_integrity_extra_valid_counterexample:
  "sync_integrity_free (snd (setup_sync_integrity (init_handler ''w1'') ''t1'' ''syn_e_w_m'' []))
   \<and> fst (setup_sync_integrity (init_handler ''w1'') ''t1'' ''syn_e_w_m'' []) = Inr (''ok'', ''t1'')"
  by (simp add: setup_sync_integrity_def setup_receive_file_def init_handler_def)

text \<open>
  C1, amended. Every begin-receive command allocates a ReceiveTask of the class of its
  continuation under the new task-id and returns that id. Before allocating,
  \<open>syn_i_w_m\<close> sets sync_integrity_free to false and \<open>syn_a_w_m\<close> sets
  sync_agent_info_free to false; \<open>syn_e_w_m\<close> writes no slot: sync_integrity_free keeps
  the value it had (false when the integrity round that asked for the extra-valid files
  still holds it). No begin-receive command touches the other slot or
  extra_valid_requested. The dispatcher hands the three commands to
  setup_sync_integrity.
\<close>

theorem setup_sync_integrity_slots:
  "setup_sync_integrity h i ''syn_i_w_m'' x =
     (Inr (''ok'', i),
      h\<lparr>sync_integrity_free := False,
        sync_tasks := (sync_tasks h)(i \<mapsto>
          \<lparr> task_class = ReceiveIntegrityTask, task_data = x, filename = Filename [],
            received_information = False, cancelled = False \<rparr>)\<rparr>)
   \<and> setup_sync_integrity h i ''syn_e_w_m'' x =
     (Inr (''ok'', i),
      h\<lparr>sync_tasks := (sync_tasks h)(i \<mapsto>
          \<lparr> task_class = ReceiveExtraValidTask, task_data = x, filename = Filename [],
            received_information = False, cancelled = False \<rparr>)\<rparr>)
   \<and> setup_sync_integrity h i ''syn_a_w_m'' x =
     (Inr (''ok'', i),
      h\<lparr>sync_agent_info_free := False,
        sync_tasks := (sync_tasks h)(i \<mapsto>
          \<lparr> task_class = ReceiveAgentInfoTask, task_data = x, filename = Filename [],
            received_information = False, cancelled = False \<rparr>)\<rparr>)
   \<and> process_request env h srv i ''syn_i_w_m'' x =
     (fst (setup_sync_integrity h i ''syn_i_w_m'' x),
      snd (setup_sync_integrity h i ''syn_i_w_m'' x), srv, [])
   \<and> process_request env h srv i ''syn_e_w_m'' x =
     (fst (setup_sync_integrity h i ''syn_e_w_m'' x),
      snd (setup_sync_integrity h i ''syn_e_w_m'' x), srv, [])
   \<and> process_request env h srv i ''syn_a_w_m'' x =
     (fst (setup_sync_integrity h i ''syn_a_w_m'' x),
      snd (setup_sync_integrity h i ''syn_a_w_m'' x), srv, [])"
  by (simp add: setup_sync_integrity_def setup_receive_file_def process_request_def)

section \<open>Connection loss\<close>

text \<open>
  C10, connection_lost. Losing the connection asks every task of the session's task map
  to cancel (the map keeps its keys) and leaves the slot state as it was:
  sync_integrity_free, sync_agent_info_free and extra_valid_requested are unchanged.
\<close>

theorem connection_lost_keeps_slots:
  "sync_tasks (fst (connection_lost h srv)) =
       map_option (\<lambda>t. t\<lparr>cancelled := True\<rparr>) \<circ> sync_tasks h
   \<and> dom (sync_tasks (fst (connection_lost h srv))) = dom (sync_tasks h)
   \<and> sync_integrity_free (fst (connection_lost h srv)) = sync_integrity_free h
   \<and> sync_agent_info_free (fst (connection_lost h srv)) = sync_agent_info_free h
   \<and> extra_valid_requested (fst (connection_lost h srv)) = extra_valid_requested h"
  by (auto simp add: connection_lost_def dom_def)

section \<open>The slot invariant\<close>

lemma setup_receive_file_slots:
  "sync_integrity_free (snd (setup_receive_file h i f x)) = sync_integrity_free h"
  "extra_valid_requested (snd (setup_receive_file h i f x)) = extra_valid_requested h"
  by (simp_all add: setup_receive_file_def split: option.splits)

lemma setup_sync_integrity_evr:
  "extra_valid_requested (snd (setup_sync_integrity h i c x)) = extra_valid_requested h"
  by (simp add: setup_sync_integrity_def setup_receive_file_slots)

lemma setup_sync_integrity_free:
  "sync_integrity_free (snd (setup_sync_integrity h i c x)) \<Longrightarrow> sync_integrity_free h"
  by (simp add: setup_sync_integrity_def setup_receive_file_slots split: if_splits)

lemma end_receiving_slots:
  "sync_integrity_free (snd (end_receiving_integrity_checksums h x)) = sync_integrity_free h"
  "extra_valid_requested (snd (end_receiving_integrity_checksums h x)) = extra_valid_requested h"
  by (simp_all add: end_receiving_integrity_checksums_def end_receiving_file_def
        split: option.splits prod.splits)

lemma error_receiving_slots:
  "sync_integrity_free (snd (error_receiving_file h x)) = sync_integrity_free h"
  "extra_valid_requested (snd (error_receiving_file h x)) = extra_valid_requested h"
  by (simp_all add: error_receiving_file_def split: option.splits prod.splits)

lemma process_dapi_res_slots:
  "sync_integrity_free (fst (snd (process_dapi_res h srv x))) = sync_integrity_free h"
  "extra_valid_requested (fst (snd (process_dapi_res h srv x))) = extra_valid_requested h"
  by (simp_all add: process_dapi_res_def split: option.splits prod.splits)

lemma sync_integrity_keeps_free:
  "sync_integrity_free (fst (snd (sync_integrity env h srv t r))) = sync_integrity_free h"
  by (simp add: sync_integrity_def finish_push_def Let_def
        split: option.splits artifact.splits sum.splits prod.splits send_result.splits)

lemma sync_integrity_requests:
  "extra_valid_requested (fst (snd (sync_integrity env h srv t r))) =
     (case computed_diff env h srv t r of
        None \<Rightarrow> extra_valid_requested h
      | Some ko \<Rightarrow> extra_valid ko \<noteq> [])"
  by (simp add: sync_integrity_def computed_diff_def finish_push_def Let_def
        split: option.splits artifact.splits sum.splits prod.splits send_result.splits)

lemma sync_wazuh_db_info_slots:
  "sync_integrity_free (fst (snd (sync_wazuh_db_info env h t))) = sync_integrity_free h"
  "extra_valid_requested (fst (snd (sync_wazuh_db_info env h t))) = extra_valid_requested h"
  by (simp_all add: sync_wazuh_db_info_def Let_def
        split: option.splits agent_info_doc.splits send_result.splits)

lemma update_member_slots:
  "sync_integrity_free (session (update_member env ids m st mem)) = sync_integrity_free (session st)"
  "extra_valid_requested (session (update_member env ids m st mem)) = extra_valid_requested (session st)"
  by (simp_all add: update_member_def write_member_def safe_move_def Let_def split: option.splits)

lemma update_file_slots:
  "sync_integrity_free (session (update_file env ids p st e)) = sync_integrity_free (session st)"
  "extra_valid_requested (session (update_file env ids p st e)) = extra_valid_requested (session st)"
  by (simp_all add: update_file_def Let_def update_member_slots
        foldl_keeps [where g = "\<lambda>st. sync_integrity_free (session st)"]
        foldl_keeps [where g = "\<lambda>st. extra_valid_requested (session st)"]
        split: option.splits sum.splits)

lemma process_files_slots:
  "sync_integrity_free (session (process_files_from_worker env h d fm p)) = sync_integrity_free h"
  "extra_valid_requested (session (process_files_from_worker env h d fm p)) = extra_valid_requested h"
  by (simp_all add: process_files_from_worker_def update_file_slots
        foldl_keeps [where g = "\<lambda>st. sync_integrity_free (session st)"]
        foldl_keeps [where g = "\<lambda>st. extra_valid_requested (session st)"])

lemma sync_worker_files_slots:
  "sync_integrity_free (fst (snd (sync_worker_files env h d t r))) = sync_integrity_free h"
  "extra_valid_requested (fst (snd (sync_worker_files env h d t r))) = extra_valid_requested h"
  by (simp_all add: sync_worker_files_def process_files_slots
        split: option.splits artifact.splits sum.splits prod.splits)

lemma sync_extra_valid_invariant:
  "slot_invariant h \<Longrightarrow> slot_invariant (fst (snd (sync_extra_valid env h d t r)))"
  using sync_worker_files_slots [of env h d t r]
  by (auto simp add: sync_extra_valid_def slot_invariant_def split: prod.splits option.splits)

lemma step_keeps_invariant:
  "slot_invariant (fst s) \<Longrightarrow> allowed s e \<Longrightarrow> slot_invariant (fst (step s e))"
proof (cases s)
  case (fields h srv d)
  assume inv: "slot_invariant (fst s)" and ok: "allowed s e"
  show ?thesis
  proof (cases e)
    case (BeginReceive i c x)
    with fields inv show ?thesis
      using setup_sync_integrity_free [of h i c x]
      by (auto simp add: slot_invariant_def setup_sync_integrity_evr)
  next
    case (SyncError m)
    with fields inv ok show ?thesis
      by (simp add: slot_invariant_def process_sync_error_from_worker_def error_receiving_slots)
  next
    case (RunIntegrity env t r)
    with fields inv ok show ?thesis
      by (cases "computed_diff env h srv t r")
         (auto simp add: slot_invariant_def sync_integrity_keeps_free sync_integrity_requests
            requests_extra_valid_def)
  next
    case (RunExtraValid env t r)
    with fields inv show ?thesis by (simp add: sync_extra_valid_invariant)
  next
    case (IntegrityDone t)
    with fields inv show ?thesis
      by (simp add: slot_invariant_def integrity_done_callback_def base_done_callback_def Let_def)
  qed (use fields inv in \<open>simp_all add: slot_invariant_def end_receiving_slots
        process_dapi_res_slots sync_wazuh_db_info_slots extra_valid_done_callback_def
        agent_info_done_callback_def base_done_callback_def connection_lost_def\<close>)
qed

lemma run_keeps_invariant:
  "slot_invariant (fst s) \<Longrightarrow> admissible s es \<Longrightarrow> slot_invariant (fst (run s es))"
  unfolding run_def
proof (induction es arbitrary: s)
  case Nil
  then show ?case by simp
next
  case (Cons e es)
  then show ?case by (simp add: step_keeps_invariant)
qed

lemma example_round_state:
  "extra_valid_requested (fst (run (init_handler ''w1'', example_master, Map.empty) example_round))
   \<and> \<not> sync_integrity_free (fst (run (init_handler ''w1'', example_master, Map.empty) example_round))
   \<and> sync_tasks (fst (run (init_handler ''w1'', example_master, Map.empty) example_round)) ''t1''
       \<noteq> None"
  by (simp add: run_def example_round_def init_handler_def example_master_def
        example_env_extra_valid_def example_env_def example_meta_def
        setup_sync_integrity_def setup_receive_file_def end_receiving_integrity_checksums_def
        end_receiving_file_def split1_def sync_integrity_def Let_def finish_push_def
        push_files_def after_effects_def starts_with_Error_def)

lemma example_overlap_state:
  "extra_valid_requested (fst (run (init_handler ''w1'', example_master, Map.empty) example_overlap))
   \<and> sync_integrity_free (fst (run (init_handler ''w1'', example_master, Map.empty) example_overlap))"
  by (simp add: run_def example_overlap_def init_handler_def example_master_def
        example_env_extra_valid_def example_env_def example_meta_def
        setup_sync_integrity_def setup_receive_file_def end_receiving_integrity_checksums_def
        end_receiving_file_def split1_def sync_integrity_def Let_def finish_push_def
        push_files_def after_effects_def starts_with_Error_def
        integrity_done_callback_def base_done_callback_def)

text \<open>
  C2, counterexample. A fresh session starts an integrity round (\<open>syn_i_w_m\<close>, end of
  the file), the diff asks for an extra-valid file, and the worker then reports a
  synchronisation error (\<open>syn_i_w_m_r\<close>): extra_valid_requested and sync_integrity_free
  are both true in the state reached. The same happens without any reported error when
  two integrity rounds of one worker overlap: the first completes and frees the slot,
  the second then asks for extra-valid files.
\<close>

theorem slot_invariant_sync_error_counterexample:
  "extra_valid_requested (fst (run (init_handler ''w1'', example_master, Map.empty)
       (example_round @ [SyncError ''t1 failed''])))
   \<and> sync_integrity_free (fst (run (init_handler ''w1'', example_master, Map.empty)
       (example_round @ [SyncError ''t1 failed''])))
   \<and> extra_valid_requested (fst (run (init_handler ''w1'', example_master, Map.empty)
       example_overlap))
   \<and> sync_integrity_free (fst (run (init_handler ''w1'', example_master, Map.empty)
       example_overlap))"
proof -
  obtain h srv d where s: "run (init_handler ''w1'', example_master, Map.empty) example_round = (h, srv, d)"
    by (cases "run (init_handler ''w1'', example_master, Map.empty) example_round")
  from example_round_state s have "extra_valid_requested h" by simp
  then show ?thesis
    using s example_overlap_state
    by (simp add: run_def process_sync_error_from_worker_def error_receiving_slots)
qed

text \<open>
  C2, amended. From a fresh session, on every sequence of handler operations (probes,
  begin- and end-receive commands, sync errors, DAPI responses, the three continuations,
  the three done-callbacks, connection loss) in which a worker-reported sync error is
  processed only while extra_valid_requested is false and no integrity continuation
  that runs while sync_integrity_free is true finds extra-valid files to request, every
  state reached satisfies: extra_valid_requested = true implies sync_integrity_free =
  false. The integrity continuation may run while the slot is free, as it does after a
  reported error, which it raises without reaching the diff.
\<close>

theorem slot_invariant_on_admissible_traces:
  "admissible (init_handler n, srv, d) es
   \<Longrightarrow> slot_invariant (fst (run (init_handler n, srv, d) es))"
  by (rule run_keeps_invariant) (simp_all add: slot_invariant_def init_handler_def)

theorem slot_invariant_on_admissible_traces_witness:
  "admissible (init_handler ''w1'', example_master, Map.empty) example_round
   \<and> extra_valid_requested
        (fst (run (init_handler ''w1'', example_master, Map.empty) example_round))
   \<and> \<not> sync_integrity_free
        (fst (run (init_handler ''w1'', example_master, Map.empty) example_round))
   \<and> admissible (init_handler ''w1'', example_master, Map.empty) example_error_path
   \<and> \<not> extra_valid_requested
        (fst (run (init_handler ''w1'', example_master, Map.empty) example_error_path))
   \<and> sync_integrity_free
        (fst (run (init_handler ''w1'', example_master, Map.empty) example_error_path))"
  using slot_invariant_on_admissible_traces [of "''w1''" example_master Map.empty example_round]
    slot_invariant_on_admissible_traces
      [of "''w1''" example_master Map.empty example_error_path]
    example_round_state
  by (simp add: example_round_def example_error_path_def run_def init_handler_def
        example_master_def example_env_extra_valid_def example_env_def
        setup_sync_integrity_def setup_receive_file_def end_receiving_integrity_checksums_def
        end_receiving_file_def split1_def process_sync_error_from_worker_def
        error_receiving_file_def requests_extra_valid_def computed_diff_def
        sync_integrity_def integrity_done_callback_def base_done_callback_def Let_def)

section \<open>Applying merged files\<close>




section \<open>Integrity round without differences\<close>

text \<open>
  C5, sync_integrity. When the file of the task has been received and decompressed and
  the diff against the master snapshot leaves the four buckets empty, sync_integrity
  sends \<open>syn_m_c_ok\<close> with an empty payload and nothing else (no archive is built, no
  file is pushed), records the start and end of the integrity check, leaves
  extra_valid_requested false, and returns what the send returned.
\<close>

theorem sync_integrity_nothing_to_sync:
  assumes "sync_tasks h task_id = Some t"
      and "filename t = Filename f"
      and "decompress_files env f = Inr (files_metadata, dir)"
      and "fst (compare_files env (integrity_control srv) files_metadata (name h)) =
             \<lparr> missing = [], shared = [], extra = [], extra_valid = [] \<rparr>"
  shows "snd (snd (sync_integrity env h srv task_id True)) = [Rmtree dir, Send ''syn_m_c_ok'' []]
       \<and> fst (snd (sync_integrity env h srv task_id True)) =
           h\<lparr>extra_valid_requested := False,
             integrity_check_status :=
               \<lparr> check_date_start_master = DateStr (strftime env (now env 0)),
                 check_date_end_master = DateStr (strftime env (now env 2)) \<rparr>\<rparr>
       \<and> fst (sync_integrity env h srv task_id True) =
           (case send_request env ''syn_m_c_ok'' [] of Raises e \<Rightarrow> Inl e | Returns r \<Rightarrow> Inr r)"
  using assms
  by (simp add: sync_integrity_def Let_def split: send_result.splits)

theorem sync_integrity_nothing_to_sync_witness:
  "snd (snd (sync_integrity example_env (example_session\<lparr>extra_valid_requested := True\<rparr>)
               example_master ''t1'' True))
     = [Rmtree ''/var/ossec/queue/cluster/w1/zipdir'', Send ''syn_m_c_ok'' []]
   \<and> \<not> extra_valid_requested
         (fst (snd (sync_integrity example_env (example_session\<lparr>extra_valid_requested := True\<rparr>)
                      example_master ''t1'' True)))
   \<and> check_date_end_master (integrity_check_status
         (fst (snd (sync_integrity example_env (example_session\<lparr>extra_valid_requested := True\<rparr>)
                      example_master ''t1'' True)))) = DateStr ''date''
   \<and> fst (sync_integrity example_env (example_session\<lparr>extra_valid_requested := True\<rparr>)
            example_master ''t1'' True) = Inr (Bytes ''ok'')"
  using sync_integrity_nothing_to_sync
      [where h = "example_session\<lparr>extra_valid_requested := True\<rparr>" and task_id = "''t1''"
         and t = "\<lparr> task_class = ReceiveIntegrityTask, task_data = [], filename = Filename ''f1'',
             received_information = True, cancelled = False \<rparr>"
         and f = "''f1''" and env = example_env and files_metadata = "[]"
         and dir = "''/var/ossec/queue/cluster/w1/zipdir''" and srv = example_master]
  by (simp add: example_session_def example_env_def example_master_def init_handler_def)

section \<open>Agent-info synchronisation: every chunk is processed\<close>







section \<open>The pending-request table\<close>

lemma process_dapi_res_keeps_pending:
  "pending_api_requests srv rid \<noteq> None
   \<Longrightarrow> pending_api_requests (fst (snd (snd (process_dapi_res h srv x)))) rid \<noteq> None"
  by (simp add: process_dapi_res_def split: option.splits prod.splits del: not_None_eq)

lemma deliver_keeps_pending:
  "pending_api_requests (snd hs) rid \<noteq> None
   \<Longrightarrow> pending_api_requests (snd (deliver hs dl)) rid \<noteq> None"
  by (cases "fst dl") (simp_all add: deliver_def process_dapi_res_keeps_pending del: not_None_eq)

lemma deliveries_keep_pending:
  "pending_api_requests (snd hs) rid \<noteq> None
   \<Longrightarrow> pending_api_requests (snd (foldl deliver hs ds)) rid \<noteq> None"
  by (rule foldl_invariant [where P = "\<lambda>hs. pending_api_requests (snd hs) rid \<noteq> None"])
     (simp_all add: deliver_keeps_pending del: not_None_eq)

text \<open>
  C7, counterexample. A \<open>dapi\<close> round-trip whose response arrives ends in success and
  one whose response does not arrive ends in the timeout error 3021; after either, the
  entry inserted under the request-id is still in the pending-request table.
\<close>

theorem execute_entry_remains_counterexample:
  "fst (execute example_env example_session example_master ''req-1'' ''t2'' ''dapi'' ''{}''
          False [(None, ''req-1 s1'')])
     = Some (Inr ''response text'')
   \<and> pending_api_requests (fst (snd (snd
        (execute example_env example_session example_master ''req-1'' ''t2'' ''dapi'' ''{}''
          False [(None, ''req-1 s1'')])))) ''req-1''
     = Some \<lparr> event_set = True, response = ''response text'' \<rparr>
   \<and> fst (execute example_env example_session example_master ''req-2'' ''t2'' ''dapi'' ''{}''
          False [])
     = Some (Inl (WazuhClusterError 3021 []))
   \<and> pending_api_requests (fst (snd (snd
        (execute example_env example_session example_master ''req-2'' ''t2'' ''dapi'' ''{}''
          False [])))) ''req-2''
     = Some \<lparr> event_set = False, response = [] \<rparr>"
  by (simp add: execute_def Let_def example_env_def example_master_def example_session_def
        init_handler_def deliver_def process_dapi_res_def split1_def await_response_def)

text \<open>
  C7, amended. execute inserts the entry under the fresh request-id and never removes
  it: for the commands \<open>dapi\<close> and \<open>dapi_fwd\<close>, however the round-trip ends (response,
  timeout, failed send, unknown worker) and whatever \<open>dapi_res\<close> commands are processed
  meanwhile, the entry is still in the pending-request table when execute is done.
\<close>

theorem execute_never_removes_entry:
  "pending_api_requests (fst (snd (snd (execute env h srv rid nid ''dapi'' x w ds)))) rid \<noteq> None
   \<and> pending_api_requests (fst (snd (snd (execute env h srv rid nid ''dapi_fwd'' x w ds)))) rid \<noteq> None"
  by (simp add: execute_def Let_def deliveries_keep_pending
        split: option.splits prod.splits send_result.splits reply.splits del: not_None_eq)

section \<open>DAPI responses\<close>




section \<open>Health of the cluster with an empty filter\<close>

text \<open>
  C9, get_health at the failing input. With one connected worker \<open>w1\<close> and the empty
  dictionary as filter, the document lists the worker and not the master node; with no
  filter at all (None) it lists both.
\<close>

theorem get_health_empty_filter_omits_master:
  "map_sum id (\<lambda>doc. (n_connected_nodes doc, map fst (nodes doc)))
       (get_health example_env example_master (FilterDict [])) = Inr (1, [''w1''])
   \<and> map_sum id (\<lambda>doc. (n_connected_nodes doc, map fst (nodes doc)))
       (get_health example_env example_master FilterNone) = Inr (1, [''w1'', ''master-node''])"
  by (simp add: get_health_def Let_def example_env_def example_master_def init_handler_def
        handler_to_dict_def master_to_dict_def finish_entry_def)

end
